theory Spec2Isabelle
  imports Main
begin

section \<open>Python values\<close>

text \<open>
  A Python \<open>str\<close> is a sequence of Unicode code points, so it is modelled as a list of
  code points; \<open>str\<close> turns an ASCII literal of the source into such a list.
\<close>

type_synonym pystr = "nat list"

definition str :: "string \<Rightarrow> pystr" where
  "str s = map of_char s"

text \<open>
  A float is kept as what decides its truth value: a finite float \<open>m * 2 ^ e\<close> is zero
  exactly when its mantissa is.
\<close>

datatype pyfloat = Finite int int | Infinite bool | NaN

text \<open>
  The values \<open>request.get_json\<close> can produce and \<open>jsonify\<close> consumes. A dict is the
  list of its items in insertion order, looked up with \<open>map_of\<close>.
\<close>

datatype pyval =
    PyNone
  | PyBool bool
  | PyInt int
  | PyFloat pyfloat
  | PyStr pystr
  | PyList "pyval list"
  | PyDict "(pystr \<times> pyval) list"

text \<open>Truth value testing, the \<open>x\<close> of \<open>if not x\<close>.\<close>

fun truthy :: "pyval \<Rightarrow> bool" where
  "truthy PyNone = False"
| "truthy (PyBool b) = b"
| "truthy (PyInt i) = (i \<noteq> 0)"
| "truthy (PyFloat (Finite m e)) = (m \<noteq> 0)"
| "truthy (PyFloat (Infinite sg)) = True"
| "truthy (PyFloat NaN) = True"
| "truthy (PyStr s) = (s \<noteq> [])"
| "truthy (PyList xs) = (xs \<noteq> [])"
| "truthy (PyDict kvs) = (kvs \<noteq> [])"

fun type_name :: "pyval \<Rightarrow> pystr" where
  "type_name PyNone = str ''NoneType''"
| "type_name (PyBool b) = str ''bool''"
| "type_name (PyInt i) = str ''int''"
| "type_name (PyFloat f) = str ''float''"
| "type_name (PyStr s) = str ''str''"
| "type_name (PyList xs) = str ''list''"
| "type_name (PyDict kvs) = str ''dict''"

text \<open>
  Exceptions, all below \<open>Exception\<close>: the class as far as the handlers tell classes
  apart, and the text \<open>str(e)\<close> that an f-string renders. \<open>APIError\<close> stands for the
  provider's error class and its subclasses, \<open>Exception\<close> for every class that is
  neither that nor \<open>AttributeError\<close>.
\<close>

datatype exn_class = APIError | AttributeError | Exception

datatype exn = Exn (cls: exn_class) (msg: pystr)

definition isinstance_APIError :: "exn \<Rightarrow> bool" where
  "isinstance_APIError e = (cls e = APIError)"

text \<open>
  \<open>v.get(key)\<close>: only a dict has the method; on a dict a missing key gives \<open>None\<close>.
\<close>

fun py_get :: "pyval \<Rightarrow> pystr \<Rightarrow> exn + pyval" where
  "py_get (PyDict kvs) k = Inr (case map_of kvs k of None \<Rightarrow> PyNone | Some v \<Rightarrow> v)"
| "py_get v k =
     Inl (Exn AttributeError
       (39 # type_name v @ 39 # str '' object has no attribute '' @ 39 # str ''get'' @ [39]))"

text \<open>
  \<open>str.isspace\<close> on one code point (the Unicode whitespace class of CPython), and
  \<open>str.strip()\<close>, which removes leading and trailing whitespace.
\<close>

definition py_isspace :: "nat \<Rightarrow> bool" where
  "py_isspace c =
     ((0x09 \<le> c \<and> c \<le> 0x0D) \<or> (0x1C \<le> c \<and> c \<le> 0x20) \<or> c = 0x85 \<or> c = 0xA0
      \<or> c = 0x1680 \<or> (0x2000 \<le> c \<and> c \<le> 0x200A) \<or> c = 0x2028 \<or> c = 0x2029
      \<or> c = 0x202F \<or> c = 0x205F \<or> c = 0x3000)"

definition py_strip :: "pystr \<Rightarrow> pystr" where
  "py_strip s = rev (dropWhile py_isspace (rev (dropWhile py_isspace s)))"

section \<open>The provider library and the process state\<close>

text \<open>
  The generative-language library is outside the repository, so it is a parameter:
  \<open>configure\<close> returns the exception it raises, if any; the constructor
  \<open>GenerativeModel\<close> returns a client or raises; \<open>generate_content\<close> of a client takes
  the content, the system instruction and the tools, and returns a response or raises;
  reading \<open>.text\<close> of a response gives the text or raises.
\<close>

record gen_response =
  response_text :: "exn + pystr"

record client =
  generate_content :: "pystr \<Rightarrow> pystr \<Rightarrow> pyval \<Rightarrow> exn + gen_response"

record genai =
  configure :: "pystr \<Rightarrow> exn option"
  GenerativeModel :: "pystr \<Rightarrow> exn + client"

text \<open>What the process does to the outside world, in order.\<close>

datatype event =
    Print pystr
  | Configure pystr
  | Construct pystr
  | GenerateContent pystr pystr pyval

text \<open>
  The module-level variable \<open>model\<close> (\<open>None\<close> or the client; a client object is always
  true, so \<open>not model\<close> is \<open>model = None\<close>) and the effects so far.
\<close>

record process =
  model :: "client option"
  effects :: "event list"

definition print :: "pystr \<Rightarrow> process \<Rightarrow> process" where
  "print line s = s\<lparr>effects := effects s @ [Print line]\<rparr>"

section \<open>Configuration and initialization\<close>

definition MODEL_TO_USE :: pystr where
  "MODEL_TO_USE = str ''gemini-2.5-flash''"

text \<open>\<open>except Exception as e\<close> of the initialization: report and leave the model unset.\<close>

definition init_failed :: "exn \<Rightarrow> process \<Rightarrow> process" where
  "init_failed e s =
     (print (str ''ERROR: Failed to configure Google Generative AI: '' @ msg e) s)\<lparr>model := None\<rparr>"

text \<open>
  Lines 10 to 32, run once when the module is loaded. \<open>API_KEY\<close> is
  \<open>os.environ.get("GOOGLE_API_KEY")\<close>; \<open>not API_KEY\<close> holds for an unset and for an
  empty variable.
\<close>

definition init :: "(pystr \<rightharpoonup> pystr) \<Rightarrow> genai \<Rightarrow> process" where
  "init environ lib =
     (let API_KEY = environ (str ''GOOGLE_API_KEY'');
          no_key = (API_KEY = None \<or> API_KEY = Some []);
          s0 = \<lparr>model = None, effects = []\<rparr>;
          s1 = (if no_key
                then print (str ''FATAL: GOOGLE_API_KEY environment variable not found. The application cannot start.'') s0
                else s0)
      in case API_KEY of
           None \<Rightarrow> s1\<lparr>model := None\<rparr>
         | Some key \<Rightarrow>
             if key = [] then s1\<lparr>model := None\<rparr>
             else
               (let s2 = s1\<lparr>effects := effects s1 @ [Configure key]\<rparr>
                in case configure lib key of
                     Some e \<Rightarrow> init_failed e s2
                   | None \<Rightarrow>
                       (let s3 = s2\<lparr>effects := effects s2 @ [Construct MODEL_TO_USE]\<rparr>
                        in case GenerativeModel lib MODEL_TO_USE of
                             Inl e \<Rightarrow> init_failed e s3
                           | Inr c \<Rightarrow> s3\<lparr>model := Some c\<rparr>)))"

section \<open>Core LLM logic\<close>

definition lines_of :: "string list \<Rightarrow> pystr" where
  "lines_of ls = concat (map (\<lambda>l. str l @ [10]) ls)"

definition system_prompt :: pystr where
  "system_prompt = 10 # lines_of
     [''You are a certified personal trainer and exercise physiologist.'',
      '''',
      ''TASK:'',
      ''1. Read the user's parameters: situation, available equipment, timeframe.'',
      ''2. Search online for exercises that best fit the user's situation and equipment, supplementing or replacing the starter pack as needed.'',
      ''3. Generate a week-by-week workout plan for the specified timeframe.'',
      ''4. For each workout, select exercises feasible with the available equipment and situation, ensuring balanced total-body coverage.'',
      ''5. Clearly list each day's exercises, sets, reps (or time), and any necessary instructions or substitutions.'',
      ''6. Include guidance on active recovery or cardio for non-workout days.'',
      ''7. Include online links for exercise instructions wherever possible using Google Search.'',
      ''8. Output only the workout plan, clearly formatted, without extra commentary.'']"

definition tools :: pyval where
  "tools = PyList [PyDict [(str ''google_search'', PyDict [])]]"

text \<open>
  \<open>execute_workout(query)\<close>: the guard on the module's \<open>model\<close>, the remote call, then
  \<open>response.text\<close>. An exception leaves the function as \<open>Inl\<close>.
\<close>

definition execute_workout :: "process \<Rightarrow> pystr \<Rightarrow> (exn + pystr) \<times> process" where
  "execute_workout s query =
     (case model s of
        None \<Rightarrow>
          (Inl (Exn Exception
             (str ''AI model failed to initialize due to missing or invalid API key.'')), s)
      | Some m \<Rightarrow>
          (let s' = s\<lparr>effects := effects s @ [GenerateContent query system_prompt tools]\<rparr>
           in case generate_content m query system_prompt tools of
                Inl e \<Rightarrow> (Inl e, s')
              | Inr response \<Rightarrow> (response_text response, s')))"

section \<open>The routes\<close>

text \<open>
  A response is the jsonified body and the status code. What a view function leaves
  unhandled reaches the framework as \<open>Inl\<close>.
\<close>

type_synonym response = "pyval \<times> nat"

definition jsonify :: "(string \<times> pyval) list \<Rightarrow> pyval" where
  "jsonify kvs = PyDict (map (\<lambda>(k, v). (str k, v)) kvs)"

text \<open>
  The body of a request as \<open>request.get_json(silent=True)\<close> sees it: \<open>NoJson\<close> when the
  body is absent, is not JSON or is not declared as JSON (the call returns \<open>None\<close>), else
  the parsed value.
\<close>

datatype payload = NoJson | Json pyval

fun get_json_silent :: "payload \<Rightarrow> pyval" where
  "get_json_silent NoJson = PyNone"
| "get_json_silent (Json v) = v"

definition check :: "process \<Rightarrow> response \<times> process" where
  "check s =
     (let status_code = (if model s = None then 503 else 200);
          message = (if model s = None
                     then str ''backend is running, but AI model failed to initialize.''
                     else str ''backend is running'')
      in ((jsonify
             [(''status'', PyStr (if status_code = 200 then str ''ok'' else str ''error'')),
              (''message'', PyStr message),
              (''model'', PyStr MODEL_TO_USE)],
           status_code), s))"

definition execute :: "process \<Rightarrow> payload \<Rightarrow> (exn + response) \<times> process" where
  \<open>execute s body =
     (if model s = None
      then (Inr (jsonify [(''error'', PyStr (str ''AI service not initialized. Check API key configuration.''))], 503), s)
      else
        let data = get_json_silent body in
        if \<not> truthy data
        then (Inr (jsonify [(''error'', PyStr (str ''Invalid or missing JSON payload.''))], 400), s)
        else
          case py_get data (str ''query'') of
            Inl e \<Rightarrow> (Inl e, s)
          | Inr query \<Rightarrow>
              (case query of
                 PyStr q \<Rightarrow>
                   if \<not> truthy query \<or> py_strip q = []
                   then (Inr (jsonify [(''error'', PyStr (str ''Missing or empty "query" field in the request.''))], 400), s)
                   else
                     (case execute_workout s q of
                        (Inr result, s') \<Rightarrow>
                          (Inr (jsonify [(''success'', PyBool True), (''result'', PyStr result)], 200), s')
                      | (Inl e, s') \<Rightarrow>
                          if isinstance_APIError e
                          then (Inr (jsonify [(''error'', PyStr (str ''AI Service Unavailable or request error: '' @ msg e))], 503),
                                print (str ''Gemini API Error: '' @ msg e) s')
                          else (Inr (jsonify [(''error'', PyStr (str ''An unexpected internal server error occurred.''))], 500),
                                print (str ''Internal Server Error: '' @ msg e) s'))
               | _ \<Rightarrow>
                   (Inr (jsonify [(''error'', PyStr (str ''Missing or empty "query" field in the request.''))], 400), s)))\<close>

text \<open>The two routes, and a process serving requests one after the other.\<close>

datatype request = GET_check | POST_api_execute payload

fun handle :: "process \<Rightarrow> request \<Rightarrow> (exn + response) \<times> process" where
  "handle s GET_check = (case check s of (r, s') \<Rightarrow> (Inr r, s'))"
| "handle s (POST_api_execute body) = execute s body"

fun serve :: "process \<Rightarrow> request list \<Rightarrow> (exn + response) list \<times> process" where
  "serve s [] = ([], s)"
| "serve s (r # rs) =
     (case handle s r of (out, s') \<Rightarrow> (case serve s' rs of (outs, s'') \<Rightarrow> (out # outs, s'')))"

text \<open>What is observed of a process: the constructor calls and the remote calls it made.\<close>

fun is_construct :: "event \<Rightarrow> bool" where
  "is_construct (Construct name) = True"
| "is_construct ev = False"


definition constructions :: "process \<Rightarrow> event list" where
  "constructions s = filter is_construct (effects s)"


section \<open>Stub collaborators for concrete scenarios\<close>

definition stub_client :: "pystr \<Rightarrow> client" where
  "stub_client t =
     \<lparr>generate_content = (\<lambda>content instruction tls. Inr \<lparr>response_text = Inr t\<rparr>)\<rparr>"

definition failing_client :: "exn \<Rightarrow> client" where
  "failing_client e = \<lparr>generate_content = (\<lambda>content instruction tls. Inl e)\<rparr>"

definition running :: "client \<Rightarrow> process" where
  "running c = \<lparr>model = Some c, effects = []\<rparr>"

definition unavailable :: process where
  "unavailable = \<lparr>model = None, effects = []\<rparr>"

definition stub_genai :: "client \<Rightarrow> genai" where
  "stub_genai c = \<lparr>configure = (\<lambda>key. None), GenerativeModel = (\<lambda>name. Inr c)\<rparr>"

definition broken_genai :: "exn \<Rightarrow> genai" where
  "broken_genai e = \<lparr>configure = (\<lambda>key. None), GenerativeModel = (\<lambda>name. Inl e)\<rparr>"

definition environ_with_key :: "pystr \<rightharpoonup> pystr" where
  "environ_with_key = [str ''GOOGLE_API_KEY'' \<mapsto> str ''secret'']"

section \<open>Auxiliary facts\<close>

lemma py_strip_Nil_iff: "py_strip s = [] \<longleftrightarrow> (\<forall>c\<in>set s. py_isspace c)"
proof -
  have "(\<forall>x\<in>set (dropWhile py_isspace s). py_isspace x) \<longleftrightarrow> (\<forall>c\<in>set s. py_isspace c)"
    by (induction s) auto
  then show ?thesis by (simp add: py_strip_def dropWhile_eq_Nil_conv)
qed

text \<open>A request that passes the validation reaches the \<open>try\<close> block with its query.\<close>

lemma execute_accepted:
  assumes "model s = Some m" and "map_of kvs (str ''query'') = Some (PyStr q)"
    and "py_strip q \<noteq> []"
  shows "execute s (Json (PyDict kvs)) =
     (case execute_workout s q of
        (Inr result, s') \<Rightarrow>
          (Inr (jsonify [(''success'', PyBool True), (''result'', PyStr result)], 200), s')
      | (Inl e, s') \<Rightarrow>
          if isinstance_APIError e
          then (Inr (jsonify [(''error'', PyStr (str ''AI Service Unavailable or request error: '' @ msg e))], 503),
                print (str ''Gemini API Error: '' @ msg e) s')
          else (Inr (jsonify [(''error'', PyStr (str ''An unexpected internal server error occurred.''))], 500),
                print (str ''Internal Server Error: '' @ msg e) s'))"
proof -
  from assms(2) have "kvs \<noteq> []" by auto
  moreover from assms(3) have "q \<noteq> []" by (auto simp: py_strip_def)
  ultimately show ?thesis using assms by (simp add: execute_def)
qed

text \<open>The three ways in which a non-empty object fails the test on \<open>query\<close>.\<close>

lemma execute_missing:
  assumes "model s = Some m" "kvs \<noteq> []" "map_of kvs (str ''query'') = None"
  shows \<open>execute s (Json (PyDict kvs)) =
    (Inr (jsonify [(''error'', PyStr (str ''Missing or empty "query" field in the request.''))], 400), s)\<close>
  using assms by (simp add: execute_def)

lemma execute_blank:
  assumes "model s = Some m" "kvs \<noteq> []" "map_of kvs (str ''query'') = Some (PyStr q)"
    "py_strip q = []"
  shows \<open>execute s (Json (PyDict kvs)) =
    (Inr (jsonify [(''error'', PyStr (str ''Missing or empty "query" field in the request.''))], 400), s)\<close>
  using assms by (simp add: execute_def)

lemma execute_not_str:
  assumes "model s = Some m" "kvs \<noteq> []" "map_of kvs (str ''query'') = Some v"
    "\<And>q. v \<noteq> PyStr q"
  shows \<open>execute s (Json (PyDict kvs)) =
    (Inr (jsonify [(''error'', PyStr (str ''Missing or empty "query" field in the request.''))], 400), s)\<close>
proof (cases v)
  case (PyStr q)
  with assms(4) show ?thesis by blast
qed (use assms(1-3) in \<open>simp_all add: execute_def\<close>)

section \<open>The execute route on a valid query\<close>

text \<open>
  C1. With the model client available, a body whose \<open>query\<close> is a string that is neither
  empty nor made of whitespace only, and a remote call that returns a response whose
  text is \<open>t\<close>, \<open>POST /api/execute\<close> answers 200 with the body
  \<open>{success: true, result: t}\<close>: the text is returned exactly as the remote call gave it.
\<close>

theorem execute_success_verbatim:
  assumes "model s = Some m"
    and "map_of kvs (str ''query'') = Some (PyStr q)"
    and "q \<noteq> []" and "\<exists>c\<in>set q. \<not> py_isspace c"
    and "generate_content m q system_prompt tools = Inr r"
    and "response_text r = Inr t"
  shows "fst (execute s (Json (PyDict kvs))) =
           Inr (jsonify [(''success'', PyBool True), (''result'', PyStr t)], 200)"
proof -
  from assms(4) have "py_strip q \<noteq> []" by (simp add: py_strip_Nil_iff)
  with assms show ?thesis
    by (simp add: execute_accepted [of s m kvs q] execute_workout_def)
qed

theorem execute_success_verbatim_witness:
  "fst (execute (running (stub_client (str ''Week 1: ...'')))
         (Json (PyDict [(str ''query'', PyStr (str ''home, 30 min, dumbbells''))]))) =
     Inr (jsonify [(''success'', PyBool True), (''result'', PyStr (str ''Week 1: ...''))], 200)"
  by (rule execute_success_verbatim [where m = "stub_client (str ''Week 1: ...'')"
        and q = "str ''home, 30 min, dumbbells''"
        and r = "\<lparr>response_text = Inr (str ''Week 1: ...'')\<rparr>"])
     (simp_all add: running_def stub_client_def str_def py_isspace_def)

section \<open>The execute route on a rejected query\<close>

text \<open>
  C2, as the code has it. With the model client available, a non-empty JSON object that
  has no \<open>query\<close> key, or whose \<open>query\<close> is not a string, or whose \<open>query\<close> is a
  string of whitespace only (the empty string included), gets status 400 with the body
  \<open>{error: 'Missing or empty "query" field in the request.'}\<close>; the process is returned
  unchanged, so no remote call was made. The empty object \<open>{}\<close> is false for
  \<open>if not data\<close> and gets status 400 with the body
  \<open>{error: 'Invalid or missing JSON payload.'}\<close>, again with no remote call.
\<close>

theorem execute_rejects_bad_query:
  assumes "model s = Some m" and "kvs \<noteq> []"
    and "map_of kvs (str ''query'') = None
         \<or> (\<exists>v. map_of kvs (str ''query'') = Some v \<and> (\<forall>q. v \<noteq> PyStr q))
         \<or> (\<exists>q. map_of kvs (str ''query'') = Some (PyStr q) \<and> (\<forall>c\<in>set q. py_isspace c))"
  shows \<open>execute s (Json (PyDict kvs)) =
           (Inr (jsonify [(''error'', PyStr (str ''Missing or empty "query" field in the request.''))], 400), s)
         \<and> execute s (Json (PyDict [])) =
           (Inr (jsonify [(''error'', PyStr (str ''Invalid or missing JSON payload.''))], 400), s)\<close>
proof
  from assms(3) show \<open>execute s (Json (PyDict kvs)) =
           (Inr (jsonify [(''error'', PyStr (str ''Missing or empty "query" field in the request.''))], 400), s)\<close>
  proof (elim disjE exE conjE)
    assume "map_of kvs (str ''query'') = None"
    then show ?thesis by (rule execute_missing [OF assms(1,2)])
  next
    fix v assume v: "map_of kvs (str ''query'') = Some v" and nv: "\<forall>q. v \<noteq> PyStr q"
    from nv have "\<And>q. v \<noteq> PyStr q" by (rule spec)
    with v show ?thesis by (rule execute_not_str [OF assms(1,2)])
  next
    fix q assume q: "map_of kvs (str ''query'') = Some (PyStr q)" and sp: "\<forall>c\<in>set q. py_isspace c"
    from sp have "py_strip q = []" by (simp only: py_strip_Nil_iff)
    with q show ?thesis by (rule execute_blank [OF assms(1,2)])
  qed
next
  from assms(1) show "execute s (Json (PyDict [])) =
           (Inr (jsonify [(''error'', PyStr (str ''Invalid or missing JSON payload.''))], 400), s)"
    by (simp add: execute_def)
qed

theorem execute_rejects_bad_query_witness:
  \<open>execute (running (stub_client (str ''Week 1: ...'')))
      (Json (PyDict [(str ''query'', PyStr (str ''   ''))])) =
     (Inr (jsonify [(''error'', PyStr (str ''Missing or empty "query" field in the request.''))], 400),
      running (stub_client (str ''Week 1: ...'')))
   \<and> execute (running (stub_client (str ''Week 1: ...''))) (Json (PyDict [])) =
     (Inr (jsonify [(''error'', PyStr (str ''Invalid or missing JSON payload.''))], 400),
      running (stub_client (str ''Week 1: ...'')))\<close>
proof (rule execute_rejects_bad_query [where m = "stub_client (str ''Week 1: ...'')"])
  show "model (running (stub_client (str ''Week 1: ...''))) = Some (stub_client (str ''Week 1: ...''))"
    by (simp add: running_def)
  show "[(str ''query'', PyStr (str ''   ''))] \<noteq> []" by simp
  have "map_of [(str ''query'', PyStr (str ''   ''))] (str ''query'') = Some (PyStr (str ''   ''))
        \<and> (\<forall>c\<in>set (str ''   ''). py_isspace c)"
    by (simp add: str_def py_isspace_def)
  then show "map_of [(str ''query'', PyStr (str ''   ''))] (str ''query'') = None
         \<or> (\<exists>v. map_of [(str ''query'', PyStr (str ''   ''))] (str ''query'') = Some v \<and> (\<forall>q. v \<noteq> PyStr q))
         \<or> (\<exists>q. map_of [(str ''query'', PyStr (str ''   ''))] (str ''query'') = Some (PyStr q) \<and> (\<forall>c\<in>set q. py_isspace c))"
    by (intro disjI2 exI)
qed

text \<open>
  The claim as written gives the empty object the message about the \<open>query\<close> field; the
  route answers it with the message about the payload.
\<close>

theorem execute_empty_object_counterexample:
  \<open>fst (execute (running (stub_client (str ''Week 1: ...''))) (Json (PyDict []))) \<noteq>
     Inr (jsonify [(''error'', PyStr (str ''Missing or empty "query" field in the request.''))], 400)\<close>
  by (simp add: execute_def running_def jsonify_def str_def)

text \<open>
  A JSON value that is true and is not an object has no \<open>get\<close> method: the lookup raises
  \<open>AttributeError\<close> outside the \<open>try\<close> block, and the view function does not return.
\<close>

lemma execute_non_object_raises:
  "fst (execute (running (stub_client (str ''Week 1: ...''))) (Json (PyList [PyInt 1]))) =
     Inl (Exn AttributeError (39 # str ''list'' @ 39 # str '' object has no attribute '' @ 39 # str ''get'' @ [39]))"
  by (simp add: execute_def running_def)

section \<open>The health check\<close>

text \<open>
  C3. \<open>GET /check\<close> answers 200 exactly when the model client is available and 503
  otherwise. The body always carries the model identifier \<open>gemini-2.5-flash\<close>, with
  status \<open>ok\<close> and message \<open>backend is running\<close> in the first case, status \<open>error\<close> and
  message \<open>backend is running, but AI model failed to initialize.\<close> in the second. The
  process is left as it was.
\<close>

theorem check_reports_model:
  "check s =
     (if model s \<noteq> None
      then ((jsonify [(''status'', PyStr (str ''ok'')),
                      (''message'', PyStr (str ''backend is running'')),
                      (''model'', PyStr (str ''gemini-2.5-flash''))], 200), s)
      else ((jsonify [(''status'', PyStr (str ''error'')),
                      (''message'', PyStr (str ''backend is running, but AI model failed to initialize.'')),
                      (''model'', PyStr (str ''gemini-2.5-flash''))], 503), s))"
  by (simp add: check_def MODEL_TO_USE_def)

theorem check_reports_model_witness:
  "check (running (stub_client (str ''Week 1: ...''))) =
     ((jsonify [(''status'', PyStr (str ''ok'')),
                (''message'', PyStr (str ''backend is running'')),
                (''model'', PyStr (str ''gemini-2.5-flash''))], 200),
      running (stub_client (str ''Week 1: ...'')))
   \<and> check unavailable =
     ((jsonify [(''status'', PyStr (str ''error'')),
                (''message'', PyStr (str ''backend is running, but AI model failed to initialize.'')),
                (''model'', PyStr (str ''gemini-2.5-flash''))], 503), unavailable)"
  using check_reports_model [of "running (stub_client (str ''Week 1: ...''))"]
    check_reports_model [of unavailable]
  by (simp add: running_def unavailable_def)

section \<open>The execute route without a model client\<close>

text \<open>
  C5. When the model client is unavailable, \<open>POST /api/execute\<close> answers 503 with the
  body \<open>{error: 'AI service not initialized. Check API key configuration.'}\<close> whatever
  the request body is: the test on the client comes before any look at the input.
\<close>

theorem execute_unavailable:
  assumes "model s = None"
  shows "execute s body =
     (Inr (jsonify [(''error'', PyStr (str ''AI service not initialized. Check API key configuration.''))], 503), s)"
  using assms by (simp add: execute_def)

theorem execute_unavailable_witness:
  "execute unavailable (Json (PyDict [(str ''query'', PyStr (str ''home, 30 min, dumbbells''))])) =
     (Inr (jsonify [(''error'', PyStr (str ''AI service not initialized. Check API key configuration.''))], 503), unavailable)
   \<and> execute unavailable NoJson =
     (Inr (jsonify [(''error'', PyStr (str ''AI service not initialized. Check API key configuration.''))], 503), unavailable)
   \<and> execute unavailable (Json (PyList [PyInt 1])) =
     (Inr (jsonify [(''error'', PyStr (str ''AI service not initialized. Check API key configuration.''))], 503), unavailable)"
proof -
  have m: "model unavailable = None" by (simp add: unavailable_def)
  show ?thesis
    by (intro conjI execute_unavailable [OF m])
qed

section \<open>The execute route without a JSON payload\<close>

text \<open>
  C6. With the model client available, a request whose body is absent or is not valid
  JSON gets status 400 with the body \<open>{error: 'Invalid or missing JSON payload.'}\<close>, and
  the process is returned unchanged: the generator was not invoked.
\<close>

theorem execute_no_json:
  assumes "model s = Some m"
  shows "execute s NoJson =
     (Inr (jsonify [(''error'', PyStr (str ''Invalid or missing JSON payload.''))], 400), s)"
  using assms by (simp add: execute_def)

theorem execute_no_json_witness:
  "execute (running (stub_client (str ''Week 1: ...''))) NoJson =
     (Inr (jsonify [(''error'', PyStr (str ''Invalid or missing JSON payload.''))], 400),
      running (stub_client (str ''Week 1: ...'')))"
  by (rule execute_no_json [where m = "stub_client (str ''Week 1: ...'')"]) (simp add: running_def)

section \<open>The execute route when the generator raises\<close>

text \<open>
  C4. With the model client available and a valid query, when the generator raises a
  provider error \<open>e\<close> the route answers 503 with the body
  \<open>{error: 'AI Service Unavailable or request error: ' + str(e)}\<close>; when it raises any
  other error the route answers 500 with the fixed body
  \<open>{error: 'An unexpected internal server error occurred.'}\<close>.
\<close>

theorem execute_generator_errors:
  assumes "model s = Some m"
    and "map_of kvs (str ''query'') = Some (PyStr q)"
    and "\<exists>c\<in>set q. \<not> py_isspace c"
    and "fst (execute_workout s q) = Inl e"
  shows "fst (execute s (Json (PyDict kvs))) =
           Inr (if cls e = APIError
                then (jsonify [(''error'', PyStr (str ''AI Service Unavailable or request error: '' @ msg e))], 503)
                else (jsonify [(''error'', PyStr (str ''An unexpected internal server error occurred.''))], 500))"
proof -
  from assms(3) have "py_strip q \<noteq> []" by (simp add: py_strip_Nil_iff)
  note acc = execute_accepted [OF assms(1,2) this]
  obtain r s' where w: "execute_workout s q = (r, s')" by (cases "execute_workout s q")
  with assms(4) have "r = Inl e" by simp
  with w show ?thesis by (simp add: acc isinstance_APIError_def)
qed

theorem execute_generator_errors_witness:
  "fst (execute (running (failing_client (Exn APIError (str ''quota exceeded''))))
         (Json (PyDict [(str ''query'', PyStr (str ''home, 30 min, dumbbells''))]))) =
     Inr (jsonify [(''error'', PyStr (str ''AI Service Unavailable or request error: quota exceeded''))], 503)
   \<and> fst (execute (running (failing_client (Exn Exception (str ''connection reset''))))
         (Json (PyDict [(str ''query'', PyStr (str ''home, 30 min, dumbbells''))]))) =
     Inr (jsonify [(''error'', PyStr (str ''An unexpected internal server error occurred.''))], 500)"
proof -
  have q: "map_of [(str ''query'', PyStr (str ''home, 30 min, dumbbells''))] (str ''query'') =
             Some (PyStr (str ''home, 30 min, dumbbells''))"
    by simp
  have ns: "\<exists>c\<in>set (str ''home, 30 min, dumbbells''). \<not> py_isspace c"
    by (simp add: str_def py_isspace_def)
  have m: "model (running c) = Some c" for c by (simp add: running_def)
  have f: "fst (execute_workout (running (failing_client e)) (str ''home, 30 min, dumbbells'')) = Inl e" for e
    by (simp add: execute_workout_def running_def failing_client_def)
  show ?thesis
    using execute_generator_errors [OF m q ns f, of "Exn APIError (str ''quota exceeded'')"]
      execute_generator_errors [OF m q ns f, of "Exn Exception (str ''connection reset'')"]
    by (simp add: str_def)
qed

section \<open>The query that reaches the model\<close>



section \<open>The model client over the life of the process\<close>

text \<open>
  Neither the generator nor a route assigns \<open>model\<close> or calls the constructor: whatever
  \<open>print\<close> and \<open>execute_workout\<close> leave alone, \<open>execute\<close> leaves alone.
\<close>

lemma execute_workout_model: "model (snd (execute_workout s q)) = model s"
  by (simp add: execute_workout_def Let_def split: option.split sum.split)

lemma execute_workout_constructions:
  "constructions (snd (execute_workout s q)) = constructions s"
  by (simp add: execute_workout_def constructions_def Let_def split: option.split sum.split)

lemma print_model: "model (print l s) = model s"
  by (simp add: print_def)

lemma print_constructions: "constructions (print l s) = constructions s"
  by (simp add: print_def constructions_def)

lemma execute_preserves:
  assumes w: "\<And>q. f (snd (execute_workout s q)) = f s"
    and p: "\<And>l t. f (print l t) = f t"
  shows "f (snd (execute s body)) = f s"
proof (cases "model s")
  case None
  then show ?thesis by (simp add: execute_def)
next
  case (Some m)
  show ?thesis
  proof (cases "truthy (get_json_silent body)")
    case False
    with Some show ?thesis by (simp add: execute_def)
  next
    case True
    show ?thesis
    proof (cases "py_get (get_json_silent body) (str ''query'')")
      case (Inl e)
      with Some True show ?thesis by (simp add: execute_def)
    next
      case (Inr query)
      show ?thesis
      proof (cases "\<exists>q. query = PyStr q \<and> q \<noteq> [] \<and> py_strip q \<noteq> []")
        case False
        with Some True Inr have "snd (execute s body) = s"
          by (cases query) (simp_all add: execute_def)
        then show ?thesis by simp
      next
        case acc: True
        then obtain q where q: "query = PyStr q" "q \<noteq> []" "py_strip q \<noteq> []"
          by (elim exE conjE)
        obtain r s' where r: "execute_workout s q = (r, s')" by (cases "execute_workout s q")
        with w [of q] have "f s' = f s" by simp
        with Some True Inr q r show ?thesis
          by (cases r) (simp_all add: execute_def p)
      qed
    qed
  qed
qed

lemma execute_model: "model (snd (execute s body)) = model s"
  by (rule execute_preserves) (simp_all add: execute_workout_model print_model)

lemma execute_constructions: "constructions (snd (execute s body)) = constructions s"
  by (rule execute_preserves) (simp_all add: execute_workout_constructions print_constructions)

lemma handle_model: "model (snd (handle s r)) = model s"
  by (cases r) (simp_all add: execute_model check_def)

lemma handle_constructions: "constructions (snd (handle s r)) = constructions s"
  by (cases r) (simp_all add: execute_constructions check_def)

lemma serve_model: "model (snd (serve s rs)) = model s"
proof (induction rs arbitrary: s)
  case Nil
  show ?case by simp
next
  case (Cons r rs)
  have "model (snd (serve (snd (handle s r)) rs)) = model s"
    by (simp add: Cons.IH handle_model)
  then show ?case by (simp add: split_beta)
qed

lemma serve_constructions: "constructions (snd (serve s rs)) = constructions s"
proof (induction rs arbitrary: s)
  case Nil
  show ?case by simp
next
  case (Cons r rs)
  have "constructions (snd (serve (snd (handle s r)) rs)) = constructions s"
    by (simp add: Cons.IH handle_constructions)
  then show ?case by (simp add: split_beta)
qed

text \<open>The paths through the initialization.\<close>

lemma init_no_key:
  assumes "environ (str ''GOOGLE_API_KEY'') = None"
  shows "init environ lib =
     \<lparr>model = None,
      effects = [Print (str ''FATAL: GOOGLE_API_KEY environment variable not found. The application cannot start.'')]\<rparr>"
  using assms by (simp add: init_def print_def)

lemma init_configure_fails:
  assumes "environ (str ''GOOGLE_API_KEY'') = Some key" and "configure lib key = Some e"
  shows "model (init environ lib) = None"
  using assms by (simp add: init_def init_failed_def print_def Let_def)

lemma init_construct_fails:
  assumes "environ (str ''GOOGLE_API_KEY'') = Some key"
    and "GenerativeModel lib MODEL_TO_USE = Inl e"
  shows "model (init environ lib) = None"
  using assms
  by (simp add: init_def init_failed_def print_def Let_def split: option.split)

lemma init_constructions: "length (constructions (init environ lib)) \<le> 1"
  by (simp add: init_def init_failed_def print_def constructions_def Let_def
      split: option.split sum.split)

lemma init_model_Some:
  assumes "model (init environ lib) = Some c"
  shows "GenerativeModel lib MODEL_TO_USE = Inr c
         \<and> constructions (init environ lib) = [Construct MODEL_TO_USE]"
proof -
  from assms obtain key where k: "environ (str ''GOOGLE_API_KEY'') = Some key"
    by (cases "environ (str ''GOOGLE_API_KEY'')") (simp_all add: init_no_key)
  have ne: "key \<noteq> []"
  proof
    assume "key = []"
    with k have "model (init environ lib) = None" by (simp add: init_def print_def)
    with assms show False by simp
  qed
  have cf: "configure lib key = None"
  proof (cases "configure lib key")
    case (Some e)
    with k assms init_configure_fails [of environ key lib e] show ?thesis by simp
  qed simp
  show ?thesis
  proof (cases "GenerativeModel lib MODEL_TO_USE")
    case (Inl e)
    with k assms init_construct_fails [of environ key lib e] show ?thesis by simp
  next
    case (Inr c')
    with k ne cf assms show ?thesis
      by (simp add: init_def constructions_def Let_def)
  qed
qed

text \<open>
  C7. When the credential is absent from the environment, the initialization ends with
  \<open>model\<close> unset; it is a total function of the environment and the library, so nothing
  is raised and the process starts, and both routes then answer 503. When the
  credential is present and \<open>configure\<close> or the constructor raises, the exception is
  caught and \<open>model\<close> is unset in the same way.
\<close>

theorem init_leaves_model_unset:
  "(environ (str ''GOOGLE_API_KEY'') = None \<longrightarrow>
      model (init environ lib) = None
      \<and> snd (fst (check (init environ lib))) = 503
      \<and> fst (execute (init environ lib) body) =
          Inr (jsonify [(''error'', PyStr (str ''AI service not initialized. Check API key configuration.''))], 503))
   \<and> (environ (str ''GOOGLE_API_KEY'') = Some key
        \<and> (configure lib key = Some e \<or> GenerativeModel lib MODEL_TO_USE = Inl e) \<longrightarrow>
      model (init environ lib) = None
      \<and> snd (fst (check (init environ lib))) = 503
      \<and> fst (execute (init environ lib) body) =
          Inr (jsonify [(''error'', PyStr (str ''AI service not initialized. Check API key configuration.''))], 503))"
proof -
  have rep: "snd (fst (check s)) = 503
      \<and> fst (execute s body) =
          Inr (jsonify [(''error'', PyStr (str ''AI service not initialized. Check API key configuration.''))], 503)"
    if "model s = None" for s
    using that by (simp add: check_def execute_def)
  show ?thesis
  proof (intro conjI impI)
    assume a: "environ (str ''GOOGLE_API_KEY'') = None"
    then show m: "model (init environ lib) = None" by (simp add: init_no_key)
    from rep [OF m] show "snd (fst (check (init environ lib))) = 503" by (rule conjunct1)
    from rep [OF m] show "fst (execute (init environ lib) body) =
          Inr (jsonify [(''error'', PyStr (str ''AI service not initialized. Check API key configuration.''))], 503)"
      by (rule conjunct2)
  next
    assume a: "environ (str ''GOOGLE_API_KEY'') = Some key
        \<and> (configure lib key = Some e \<or> GenerativeModel lib MODEL_TO_USE = Inl e)"
    then have k: "environ (str ''GOOGLE_API_KEY'') = Some key" by (rule conjunct1)
    from a have "configure lib key = Some e \<or> GenerativeModel lib MODEL_TO_USE = Inl e"
      by (rule conjunct2)
    then show m: "model (init environ lib) = None"
    proof
      assume "configure lib key = Some e"
      with k show ?thesis by (rule init_configure_fails)
    next
      assume "GenerativeModel lib MODEL_TO_USE = Inl e"
      with k show ?thesis by (rule init_construct_fails)
    qed
    from rep [OF m] show "snd (fst (check (init environ lib))) = 503" by (rule conjunct1)
    from rep [OF m] show "fst (execute (init environ lib) body) =
          Inr (jsonify [(''error'', PyStr (str ''AI service not initialized. Check API key configuration.''))], 503)"
      by (rule conjunct2)
  qed
qed

theorem init_leaves_model_unset_witness:
  "model (init Map.empty (stub_genai (stub_client (str ''Week 1: ...'')))) = None
   \<and> snd (fst (check (init Map.empty (stub_genai (stub_client (str ''Week 1: ...'')))))) = 503
   \<and> fst (execute (init Map.empty (stub_genai (stub_client (str ''Week 1: ...'')))) NoJson) =
        Inr (jsonify [(''error'', PyStr (str ''AI service not initialized. Check API key configuration.''))], 503)
   \<and> model (init environ_with_key (broken_genai (Exn Exception (str ''invalid key'')))) = None"
proof -
  have a: "Map.empty (str ''GOOGLE_API_KEY'') = (None :: pystr option)" by simp
  have b: "environ_with_key (str ''GOOGLE_API_KEY'') = Some (str ''secret'')
           \<and> (configure (broken_genai (Exn Exception (str ''invalid key''))) (str ''secret'') =
                 Some (Exn Exception (str ''invalid key''))
               \<or> GenerativeModel (broken_genai (Exn Exception (str ''invalid key''))) MODEL_TO_USE =
                 Inl (Exn Exception (str ''invalid key'')))"
    by (simp add: environ_with_key_def broken_genai_def)
  note t1 = init_leaves_model_unset [where environ = Map.empty
      and lib = "stub_genai (stub_client (str ''Week 1: ...''))" and body = NoJson,
      THEN conjunct1, rule_format, OF a]
  note t2 = init_leaves_model_unset [where environ = environ_with_key
      and lib = "broken_genai (Exn Exception (str ''invalid key''))" and body = NoJson
      and key = "str ''secret''" and e = "Exn Exception (str ''invalid key'')",
      THEN conjunct2, rule_format, OF b]
  from t1 t2 show ?thesis by simp
qed

text \<open>
  C8. The initialization calls the constructor at most once, and a client held by
  \<open>model\<close> afterwards is the one that single call returned. Serving any sequence of
  health-check and execute requests leaves \<open>model\<close> as it was and constructs no client,
  so every request sees the same client or its absence. Requests are served one after
  the other here.
\<close>

theorem model_assigned_once:
  "length (constructions (init environ lib)) \<le> 1
   \<and> (\<forall>c. model (init environ lib) = Some c \<longrightarrow>
          GenerativeModel lib MODEL_TO_USE = Inr c
          \<and> constructions (init environ lib) = [Construct MODEL_TO_USE])
   \<and> model (snd (serve s rs)) = model s
   \<and> constructions (snd (serve s rs)) = constructions s"
proof (intro conjI allI impI)
  show "length (constructions (init environ lib)) \<le> 1" by (rule init_constructions)
  show "model (snd (serve s rs)) = model s" by (rule serve_model)
  show "constructions (snd (serve s rs)) = constructions s" by (rule serve_constructions)
next
  fix c assume c: "model (init environ lib) = Some c"
  from init_model_Some [OF c] show "GenerativeModel lib MODEL_TO_USE = Inr c" by (rule conjunct1)
  from init_model_Some [OF c] show "constructions (init environ lib) = [Construct MODEL_TO_USE]"
    by (rule conjunct2)
qed

theorem model_assigned_once_witness:
  "model (init environ_with_key (stub_genai (stub_client (str ''Week 1: ...'')))) =
     Some (stub_client (str ''Week 1: ...''))
   \<and> constructions (init environ_with_key (stub_genai (stub_client (str ''Week 1: ...'')))) =
       [Construct MODEL_TO_USE]
   \<and> model (snd (serve (init environ_with_key (stub_genai (stub_client (str ''Week 1: ...''))))
        [GET_check,
         POST_api_execute (Json (PyDict [(str ''query'', PyStr (str ''home, 30 min, dumbbells''))])),
         POST_api_execute NoJson,
         GET_check])) =
       Some (stub_client (str ''Week 1: ...''))"
proof -
  have m: "model (init environ_with_key (stub_genai (stub_client (str ''Week 1: ...'')))) =
             Some (stub_client (str ''Week 1: ...''))"
    by (simp add: init_def environ_with_key_def stub_genai_def str_def)
  note t = model_assigned_once [of environ_with_key "stub_genai (stub_client (str ''Week 1: ...''))"
      "init environ_with_key (stub_genai (stub_client (str ''Week 1: ...'')))"
      "[GET_check,
         POST_api_execute (Json (PyDict [(str ''query'', PyStr (str ''home, 30 min, dumbbells''))])),
         POST_api_execute NoJson,
         GET_check]"]
  from t [THEN conjunct2, THEN conjunct1, rule_format, OF m]
    t [THEN conjunct2, THEN conjunct2, THEN conjunct1] m
  show ?thesis by simp
qed

text \<open>
  C10. Without a client, the guard of the generator raises a plain \<open>Exception\<close>, which
  is not a provider error; the execute route never gets there, since without a client
  it answers 503 with the process untouched, while with a client the generator goes
  past the guard to the remote call. Neither the generator nor the route changes
  \<open>model\<close>.
\<close>

theorem guard_unreachable_from_execute:
  "(model s = None \<longrightarrow>
      execute_workout s q =
        (Inl (Exn Exception (str ''AI model failed to initialize due to missing or invalid API key.'')), s)
      \<and> \<not> isinstance_APIError
            (Exn Exception (str ''AI model failed to initialize due to missing or invalid API key.''))
      \<and> execute s body =
          (Inr (jsonify [(''error'', PyStr (str ''AI service not initialized. Check API key configuration.''))], 503), s))
   \<and> (model s = Some m \<longrightarrow>
      execute_workout s q =
        (case generate_content m q system_prompt tools of
           Inl e \<Rightarrow> Inl e
         | Inr response \<Rightarrow> response_text response,
         s\<lparr>effects := effects s @ [GenerateContent q system_prompt tools]\<rparr>))
   \<and> model (snd (execute_workout s q)) = model s
   \<and> model (snd (execute s body)) = model s"
proof (intro conjI impI)
  assume n: "model s = None"
  then show "execute_workout s q =
        (Inl (Exn Exception (str ''AI model failed to initialize due to missing or invalid API key.'')), s)"
    by (simp add: execute_workout_def)
  show "\<not> isinstance_APIError
            (Exn Exception (str ''AI model failed to initialize due to missing or invalid API key.''))"
    by (simp add: isinstance_APIError_def)
  from n show "execute s body =
          (Inr (jsonify [(''error'', PyStr (str ''AI service not initialized. Check API key configuration.''))], 503), s)"
    by (simp add: execute_def)
next
  assume "model s = Some m"
  then show "execute_workout s q =
        (case generate_content m q system_prompt tools of
           Inl e \<Rightarrow> Inl e
         | Inr response \<Rightarrow> response_text response,
         s\<lparr>effects := effects s @ [GenerateContent q system_prompt tools]\<rparr>)"
    by (simp add: execute_workout_def Let_def split: sum.split)
next
  show "model (snd (execute_workout s q)) = model s" by (rule execute_workout_model)
  show "model (snd (execute s body)) = model s" by (rule execute_model)
qed

theorem guard_unreachable_from_execute_witness:
  "execute_workout unavailable (str ''home, 30 min, dumbbells'') =
     (Inl (Exn Exception (str ''AI model failed to initialize due to missing or invalid API key.'')),
      unavailable)
   \<and> execute unavailable (Json (PyDict [(str ''query'', PyStr (str ''home, 30 min, dumbbells''))])) =
     (Inr (jsonify [(''error'', PyStr (str ''AI service not initialized. Check API key configuration.''))], 503),
      unavailable)
   \<and> fst (execute_workout (running (stub_client (str ''Week 1: ...''))) (str ''home, 30 min, dumbbells'')) =
     Inr (str ''Week 1: ...'')"
proof -
  have n: "model unavailable = None" by (simp add: unavailable_def)
  have m: "model (running (stub_client (str ''Week 1: ...''))) = Some (stub_client (str ''Week 1: ...''))"
    by (simp add: running_def)
  note t1 = guard_unreachable_from_execute [THEN conjunct1, rule_format, OF n,
      of "str ''home, 30 min, dumbbells''"
         "Json (PyDict [(str ''query'', PyStr (str ''home, 30 min, dumbbells''))])"]
  note t2 = guard_unreachable_from_execute [THEN conjunct2, THEN conjunct1, rule_format, OF m,
      of "str ''home, 30 min, dumbbells''"]
  from t1 t2 show ?thesis by (simp add: stub_client_def)
qed

end
